theory Spec2Isabelle
  imports Main
begin

section \<open>The shared store\<close>

text \<open>
  The gateway (api-gateway/server.js) talks to one Redis client. The model keeps what the
  gateway can observe of it: the counters it increments (keyed by client address), the
  string values it reads and writes (keyed \<open>token:\<close>, \<open>user:\<close>, \<open>cache:\<close>), the
  time-to-live last set on a key, and the client's \<open>isOpen\<close> flag. The gateway never
  reads a counter with GET and never increments a prefixed key, so the two kinds of value
  are kept in two maps. Time does not pass inside the model: a state stands for one
  moment of one window, and the recorded time-to-live says what expiry was asked for.

  Every command of the client is asynchronous and may reject. Whether a given call
  rejects is decided by the environment, so each command takes a flag that says so.
\<close>

record redis =
  hits :: "string \<rightharpoonup> int"
  kv :: "string \<rightharpoonup> string"
  ttl :: "string \<rightharpoonup> nat"
  isOpen :: bool

datatype store_error = StoreError

definition incr :: "bool \<Rightarrow> redis \<Rightarrow> string \<Rightarrow> store_error + (int \<times> redis)" where
  "incr fails r k =
     (if fails then Inl StoreError
      else (let c = (case hits r k of None \<Rightarrow> 1 | Some n \<Rightarrow> n + 1)
            in Inr (c, r\<lparr>hits := (hits r)(k \<mapsto> c)\<rparr>)))"

definition expire :: "bool \<Rightarrow> redis \<Rightarrow> string \<Rightarrow> nat \<Rightarrow> store_error + redis" where
  "expire fails r k secs =
     (if fails then Inl StoreError else Inr (r\<lparr>ttl := (ttl r)(k \<mapsto> secs)\<rparr>))"

definition get :: "bool \<Rightarrow> redis \<Rightarrow> string \<Rightarrow> store_error + string option" where
  "get fails r k = (if fails then Inl StoreError else Inr (kv r k))"

definition setEx :: "bool \<Rightarrow> redis \<Rightarrow> string \<Rightarrow> nat \<Rightarrow> string \<Rightarrow> store_error + redis" where
  "setEx fails r k secs v =
     (if fails then Inl StoreError
      else Inr (r\<lparr>kv := (kv r)(k \<mapsto> v), ttl := (ttl r)(k \<mapsto> secs)\<rparr>))"

section \<open>Rate limiting and throttling\<close>

text \<open>
  \<open>RedisStore.increment\<close>: INCR the key; when the count is 1, EXPIRE it in 900 seconds;
  return the count as \<open>totalHits\<close>. Any rejection inside the \<open>try\<close> is caught and
  \<open>totalHits: 1\<close> is returned. An increment that succeeded before EXPIRE rejected stays
  in the store.
\<close>

definition increment :: "bool \<Rightarrow> bool \<Rightarrow> redis \<Rightarrow> string \<Rightarrow> int \<times> redis" where
  "increment incr_fails expire_fails r key =
     (case incr incr_fails r key of
        Inl _ \<Rightarrow> (1, r)
      | Inr (count, r1) \<Rightarrow>
          (if count = 1 then
             (case expire expire_fails r1 key 900 of
                Inl _ \<Rightarrow> (1, r1)
              | Inr r2 \<Rightarrow> (count, r2))
           else (count, r1)))"

definition limiter_max :: int where
  "limiter_max = 100"

definition delayAfter :: nat where
  "delayAfter = 50"

definition delayMs :: nat where
  "delayMs = 500"

text \<open>
  Modelled from the spec: the decision rule of the \<open>rateLimit\<close> middleware (package
  express-rate-limit, not part of the sources). The sources give it the store above and
  \<open>max: 100\<close>; the spec says that a post-increment count above the hard cap is rejected
  with a rate-limit error (429) and that the counter is not rolled back. The result is
  whether the request was rejected, and the store after the increment.
\<close>

definition limiter :: "bool \<Rightarrow> bool \<Rightarrow> redis \<Rightarrow> string \<Rightarrow> bool \<times> redis" where
  "limiter incr_fails expire_fails r ip =
     (let (totalHits, r') = increment incr_fails expire_fails r ip
      in (totalHits > limiter_max, r'))"

text \<open>
  Modelled from the spec: the \<open>slowDown\<close> middleware (package express-slow-down, not part
  of the sources). The sources configure it with \<open>delayAfter: 50\<close> and \<open>delayMs: 500\<close>
  and with no \<open>store\<close> option, so it counts in a table of its own, in the memory of the
  process, and never touches the Redis counter. The spec says that a count above the soft
  cap is delayed by 500ms for each request above it.
\<close>

definition slow_delay :: "nat \<Rightarrow> nat" where
  "slow_delay n = (if n > delayAfter then (n - delayAfter) * delayMs else 0)"

definition speedLimiter :: "(string \<rightharpoonup> nat) \<Rightarrow> string \<Rightarrow> nat \<times> (string \<rightharpoonup> nat)" where
  "speedLimiter m ip =
     (let n = (case m ip of None \<Rightarrow> 1 | Some c \<Rightarrow> c + 1)
      in (slow_delay n, m(ip \<mapsto> n)))"

datatype decision = Allow | Delay nat | Reject

text \<open>
  \<open>app.use(limiter); app.use(speedLimiter)\<close>: the limiter runs first; a rejected request
  is answered with 429 there and never reaches the speed limiter.
\<close>

definition rate_check ::
  "bool \<Rightarrow> bool \<Rightarrow> redis \<times> (string \<rightharpoonup> nat) \<Rightarrow> string \<Rightarrow> decision \<times> redis \<times> (string \<rightharpoonup> nat)" where
  "rate_check incr_fails expire_fails s ip =
     (let (rejected, r') = limiter incr_fails expire_fails (fst s) ip
      in if rejected then (Reject, r', snd s)
         else (let (d, m') = speedLimiter (snd s) ip
               in ((if d = 0 then Allow else Delay d), r', m')))"


text \<open>The state after \<open>n\<close> requests of one client in a row, the store answering each.\<close>

fun after_requests :: "nat \<Rightarrow> redis \<times> (string \<rightharpoonup> nat) \<Rightarrow> string \<Rightarrow> redis \<times> (string \<rightharpoonup> nat)" where
  "after_requests 0 s ip = s"
| "after_requests (Suc n) s ip = snd (rate_check False False (after_requests n s ip) ip)"

definition nth_request :: "nat \<Rightarrow> redis \<times> (string \<rightharpoonup> nat) \<Rightarrow> string \<Rightarrow> decision" where
  "nth_request n s ip = fst (rate_check False False (after_requests (n - 1) s ip) ip)"

definition empty_redis :: redis where
  "empty_redis = \<lparr>hits = Map.empty, kv = Map.empty, ttl = Map.empty, isOpen = True\<rparr>"

section \<open>Requests, replies and the calls a handler makes\<close>

text \<open>
  JSON values are of a type \<open>'j\<close> that is not looked into; \<open>JSON.stringify\<close> and
  \<open>JSON.parse\<close> are parameters (\<open>parse\<close> gives \<open>None\<close> where \<open>JSON.parse\<close> throws), and so
  is \<open>jwt.verify\<close> with the secret (\<open>None\<close> where it throws). A decoded token is the
  payload object together with its \<open>userId\<close> property, which may be undefined.
\<close>

record 'j identity =
  userId :: "string option"
  claims :: 'j

record 'j request =
  req_ip :: string
  req_method :: string
  req_originalUrl :: string
  req_path :: string
  req_authorization :: "string option"
  req_body :: "(string \<rightharpoonup> string) option"
  req_file_originalname :: "string option"
  req_params_id :: "string option"
  req_user :: "'j identity option"

text \<open>The response object: \<open>json_wrapped\<close> holds the cache key once \<open>res.json\<close> has been
  replaced by the caching wrapper.\<close>

record res =
  json_wrapped :: "string option"

datatype 'j reply =
    ErrorJson nat string
  | BodyJson nat 'j
  | Streamed nat string

datatype call =
    RedisGet string
  | RedisSetEx string nat string
  | JwtVerify string
  | ProxyWeb string string

record faults =
  token_get_fails :: bool
  user_get_fails :: bool
  user_set_fails :: bool
  cache_get_fails :: bool
  cache_set_fails :: bool

definition no_faults :: faults where
  "no_faults = \<lparr>token_get_fails = False, user_get_fails = False, user_set_fails = False,
                 cache_get_fails = False, cache_set_fails = False\<rparr>"

subsection \<open>JavaScript strings\<close>

text \<open>\<open>s.split(c)\<close> for a one-character separator: never empty, \<open>\<close> gives \<open>[]\<close>.\<close>

fun js_split :: "char \<Rightarrow> string \<Rightarrow> string list" where
  "js_split c [] = [[]]"
| "js_split c (x # xs) =
     (if x = c then [] # js_split c xs
      else (case js_split c xs of
              [] \<Rightarrow> [[x]]
            | w # ws \<Rightarrow> (x # w) # ws))"

text \<open>\<open>xs[1]\<close>: the second element, or undefined.\<close>

definition second :: "'a list \<Rightarrow> 'a option" where
  "second xs = (case xs of _ # y # _ \<Rightarrow> Some y | _ \<Rightarrow> None)"

text \<open>A string-or-undefined is truthy when it is defined and not empty.\<close>

definition truthy :: "string option \<Rightarrow> bool" where
  "truthy v = (case v of None \<Rightarrow> False | Some s \<Rightarrow> s \<noteq> [])"

text \<open>\<open>a || b\<close> with a string \<open>b\<close>.\<close>

definition js_or :: "string option \<Rightarrow> string \<Rightarrow> string" where
  "js_or a b = (case a of None \<Rightarrow> b | Some s \<Rightarrow> if s = [] then b else s)"

text \<open>A value inside a template literal: undefined prints as \<open>undefined\<close>.\<close>

definition tmpl :: "string option \<Rightarrow> string" where
  "tmpl v = (case v of None \<Rightarrow> ''undefined'' | Some s \<Rightarrow> s)"

text \<open>\<open>s.includes(sub)\<close>.\<close>

fun js_includes :: "string \<Rightarrow> string \<Rightarrow> bool" where
  "js_includes [] sub = (sub = [])"
| "js_includes (c # cs) sub = (take (length sub) (c # cs) = sub \<or> js_includes cs sub)"

section \<open>Token validation\<close>

text \<open>\<open>req.headers.authorization?.split(' ')[1]\<close>\<close>

definition token_of :: "'j request \<Rightarrow> string option" where
  "token_of req =
     (case req_authorization req of
        None \<Rightarrow> None
      | Some h \<Rightarrow> second (js_split CHR '' '' h))"

definition invalid_token :: "'j reply" where
  "invalid_token = ErrorJson 401 ''Invalid or expired token''"

text \<open>
  \<open>verifyToken\<close>. The whole body is one \<open>try\<close>: a rejected store call and a throwing
  \<open>jwt.verify\<close> end in the same \<open>catch\<close>. The result is the reply sent, or the request
  passed to \<open>next()\<close> with \<open>req.user\<close> set; the store afterwards; and the calls made, in
  order.
\<close>

definition verifyToken ::
  "(string \<Rightarrow> 'j identity option) \<Rightarrow> ('j \<Rightarrow> string) \<Rightarrow> faults \<Rightarrow> redis \<Rightarrow> 'j request
   \<Rightarrow> ('j reply + 'j request) \<times> redis \<times> call list" where
  "verifyToken verify stringify f r req =
     (let token = token_of req in
      if \<not> truthy token then (Inl (ErrorJson 401 ''No token provided''), r, [])
      else
        (let tokenKey = ''token:'' @ tmpl token in
         case get (token_get_fails f) r tokenKey of
           Inl _ \<Rightarrow> (Inl invalid_token, r, [RedisGet tokenKey])
         | Inr cachedToken \<Rightarrow>
             if cachedToken = Some ''blacklisted''
             then (Inl (ErrorJson 401 ''Token has been revoked''), r, [RedisGet tokenKey])
             else
               (case verify (tmpl token) of
                  None \<Rightarrow> (Inl invalid_token, r, [RedisGet tokenKey, JwtVerify (tmpl token)])
                | Some decoded \<Rightarrow>
                    (let userKey = ''user:'' @ tmpl (userId decoded);
                         cs = [RedisGet tokenKey, JwtVerify (tmpl token), RedisGet userKey] in
                     case get (user_get_fails f) r userKey of
                       Inl _ \<Rightarrow> (Inl invalid_token, r, cs)
                     | Inr cachedUser \<Rightarrow>
                         if \<not> truthy cachedUser then
                           (let v = stringify (claims decoded) in
                            case setEx (user_set_fails f) r userKey 3600 v of
                              Inl _ \<Rightarrow> (Inl invalid_token, r, cs @ [RedisSetEx userKey 3600 v])
                            | Inr r' \<Rightarrow>
                                (Inr (req\<lparr>req_user := Some decoded\<rparr>), r',
                                 cs @ [RedisSetEx userKey 3600 v]))
                         else (Inr (req\<lparr>req_user := Some decoded\<rparr>), r, cs)))))"

section \<open>The response cache\<close>

text \<open>\<open>req.user?.userId\<close>\<close>

definition user_id :: "'j request \<Rightarrow> string option" where
  "user_id req = (case req_user req of None \<Rightarrow> None | Some u \<Rightarrow> userId u)"

text \<open>\<open>`cache:${req.originalUrl}:${req.user?.userId || 'anonymous'}`\<close>\<close>

definition cacheKey :: "'j request \<Rightarrow> string" where
  "cacheKey req = ''cache:'' @ req_originalUrl req @ '':'' @ js_or (user_id req) ''anonymous''"

text \<open>
  \<open>cacheMiddleware\<close>. A request that is not a GET goes to \<open>next()\<close> at once. Otherwise the
  key is read; a truthy value is parsed and sent with \<open>res.json\<close>; on a miss \<open>res.json\<close> is
  replaced by the caching wrapper and the request goes on. A rejected read, and a value
  that \<open>JSON.parse\<close> throws on, end in the \<open>catch\<close>, which calls \<open>next()\<close> with the response
  object as it was. The store is only read here.
\<close>

definition cacheMiddleware ::
  "(string \<Rightarrow> 'j option) \<Rightarrow> faults \<Rightarrow> redis \<Rightarrow> 'j request \<Rightarrow> res
   \<Rightarrow> ('j reply + res) \<times> call list" where
  "cacheMiddleware parse f r req rs =
     (if req_method req \<noteq> ''GET'' then (Inr rs, [])
      else
        (let k = cacheKey req in
         case get (cache_get_fails f) r k of
           Inl _ \<Rightarrow> (Inr rs, [RedisGet k])
         | Inr cached \<Rightarrow>
             if truthy cached then
               (case parse (tmpl cached) of
                  None \<Rightarrow> (Inr rs, [RedisGet k])
                | Some d \<Rightarrow> (Inl (BodyJson 200 d), [RedisGet k]))
             else (Inr (rs\<lparr>json_wrapped := Some k\<rparr>), [RedisGet k])))"

text \<open>
  \<open>res.json(data)\<close> with status \<open>st\<close>, as a later handler finds it. The wrapper starts
  \<open>setEx(cacheKey, 300, JSON.stringify(data))\<close> without awaiting it and then calls the
  original \<open>res.json\<close>: a rejected write changes nothing in the reply.
\<close>

definition res_json ::
  "('j \<Rightarrow> string) \<Rightarrow> faults \<Rightarrow> redis \<Rightarrow> res \<Rightarrow> nat \<Rightarrow> 'j \<Rightarrow> 'j reply \<times> redis \<times> call list" where
  "res_json stringify f r rs st d =
     (case json_wrapped rs of
        None \<Rightarrow> (BodyJson st d, r, [])
      | Some k \<Rightarrow>
          (let v = stringify d in
           case setEx (cache_set_fails f) r k 300 v of
             Inl _ \<Rightarrow> (BodyJson st d, r, [RedisSetEx k 300 v])
           | Inr r' \<Rightarrow> (BodyJson st d, r', [RedisSetEx k 300 v])))"

text \<open>How a handler writes its response: through \<open>res.json\<close>, or by streaming status and
  body to the socket.\<close>

datatype 'j written = CallsJson nat 'j | Pipes nat string

definition respond ::
  "('j \<Rightarrow> string) \<Rightarrow> faults \<Rightarrow> redis \<Rightarrow> res \<Rightarrow> 'j written \<Rightarrow> 'j reply \<times> redis \<times> call list" where
  "respond stringify f r rs out =
     (case out of
        CallsJson st d \<Rightarrow> res_json stringify f r rs st d
      | Pipes st b \<Rightarrow> (Streamed st b, r, []))"

section \<open>Events\<close>

record event =
  ev_type :: string
  ev_attrs :: "(string \<times> string option) list"
  ev_timestamp :: string

record message =
  msg_key :: string
  msg_value :: event

text \<open>\<open>event.userId\<close>\<close>

definition ev_userId :: "event \<Rightarrow> string option" where
  "ev_userId e = (case map_of (ev_attrs e) ''userId'' of None \<Rightarrow> None | Some v \<Rightarrow> v)"

text \<open>
  \<open>publishEvent\<close>: one message for the topic, keyed \<open>event.userId || 'system'\<close>, its value
  the event with \<open>timestamp\<close> set again at sending time. A rejected \<open>producer.send\<close> is
  logged and nothing is published. The event log is the list of messages sent, each with
  its topic.
\<close>

definition publishEvent ::
  "bool \<Rightarrow> string \<Rightarrow> string \<Rightarrow> event \<Rightarrow> (string \<times> message) list \<Rightarrow> (string \<times> message) list" where
  "publishEvent send_fails now topic e log =
     (if send_fails then log
      else log @ [(topic, \<lparr>msg_key = js_or (ev_userId e) ''system'',
                            msg_value = e\<lparr>ev_timestamp := now\<rparr>\<rparr>)])"

text \<open>\<open>req.body?.k\<close>\<close>

definition body_prop :: "'j request \<Rightarrow> string \<Rightarrow> string option" where
  "body_prop req k = (case req_body req of None \<Rightarrow> None | Some b \<Rightarrow> b k)"

text \<open>\<open>a || b\<close> where both may be undefined.\<close>

definition js_or_undef :: "string option \<Rightarrow> string option \<Rightarrow> string option" where
  "js_or_undef a b = (if truthy a then a else b)"

text \<open>
  The \<open>onProxyRes\<close> hooks. Each \<open>if\<close> hands one \<open>publishEvent\<close> call to \<open>setImmediate\<close>;
  the result lists the calls handed over, topic and event, in order.
\<close>

definition authProxy_onProxyRes :: "string \<Rightarrow> 'j request \<Rightarrow> nat \<Rightarrow> (string \<times> event) list" where
  "authProxy_onProxyRes now req statusCode =
     (if req_method req = ''POST'' \<and> js_includes (req_path req) ''/login'' \<and> statusCode = 200
      then [(''user-events'',
             \<lparr>ev_type = ''USER_LOGIN_ATTEMPT'',
              ev_attrs = [(''email'', body_prop req ''email'')],
              ev_timestamp = now\<rparr>)]
      else [])
     @
     (if req_method req = ''POST'' \<and> js_includes (req_path req) ''/register'' \<and> statusCode = 201
      then [(''user-events'',
             \<lparr>ev_type = ''USER_REGISTERED'',
              ev_attrs = [(''username'', body_prop req ''username''), (''email'', body_prop req ''email'')],
              ev_timestamp = now\<rparr>)]
      else [])"

definition fileProxy_onProxyRes :: "string \<Rightarrow> 'j request \<Rightarrow> nat \<Rightarrow> (string \<times> event) list" where
  "fileProxy_onProxyRes now req statusCode =
     (if req_method req = ''POST'' \<and> js_includes (req_path req) ''/upload'' \<and> statusCode = 201
      then [(''file-events'',
             \<lparr>ev_type = ''FILE_UPLOADED'',
              ev_attrs = [(''userId'', user_id req),
                          (''filename'', js_or_undef (req_file_originalname req) (body_prop req ''filename''))],
              ev_timestamp = now\<rparr>)]
      else [])
     @
     (if req_method req = ''DELETE'' \<and> statusCode = 200
      then [(''file-events'',
             \<lparr>ev_type = ''FILE_DELETED'',
              ev_attrs = [(''userId'', user_id req), (''fileId'', req_params_id req)],
              ev_timestamp = now\<rparr>)]
      else [])"

text \<open>The scheduled calls run one after the other; \<open>send_fails\<close> says which sends reject.\<close>

fun run_immediates ::
  "(event \<Rightarrow> bool) \<Rightarrow> string \<Rightarrow> (string \<times> event) list \<Rightarrow> (string \<times> message) list
   \<Rightarrow> (string \<times> message) list" where
  "run_immediates send_fails now [] log = log"
| "run_immediates send_fails now ((topic, e) # es) log =
     run_immediates send_fails now es (publishEvent (send_fails e) now topic e log)"

section \<open>The proxies, the routes and the health check\<close>

definition AUTH_SERVICE_URL :: string where
  "AUTH_SERVICE_URL = ''http://auth-service:3001''"

definition FILE_SERVICE_URL :: string where
  "FILE_SERVICE_URL = ''http://file-service:3002''"

text \<open>
  \<open>createProxyMiddleware\<close> without \<open>selfHandleResponse\<close>: the request is forwarded to the
  target, \<open>onProxyRes\<close> runs on the backend's response, and status and body are piped to
  the client. The backend is a parameter: what it answers to a request.
\<close>

definition authProxy ::
  "('j request \<Rightarrow> nat \<times> string) \<Rightarrow> string \<Rightarrow> 'j request
   \<Rightarrow> 'j written \<times> (string \<times> event) list \<times> call list" where
  "authProxy backend now req =
     (let (statusCode, b) = backend req
      in (Pipes statusCode b, authProxy_onProxyRes now req statusCode,
          [ProxyWeb AUTH_SERVICE_URL (req_originalUrl req)]))"

definition fileProxy ::
  "('j request \<Rightarrow> nat \<times> string) \<Rightarrow> string \<Rightarrow> 'j request
   \<Rightarrow> 'j written \<times> (string \<times> event) list \<times> call list" where
  "fileProxy backend now req =
     (let (statusCode, b) = backend req
      in (Pipes statusCode b, fileProxy_onProxyRes now req statusCode,
          [ProxyWeb FILE_SERVICE_URL (req_originalUrl req)]))"

text \<open>
  \<open>app.use('/api/files', verifyToken, cacheMiddleware, fileProxy)\<close>: each handler runs
  when the one before called \<open>next()\<close>. The result is the reply, the store afterwards, the
  calls made and the events scheduled.
\<close>

definition files_route ::
  "(string \<Rightarrow> 'j identity option) \<Rightarrow> (string \<Rightarrow> 'j option) \<Rightarrow> ('j \<Rightarrow> string)
   \<Rightarrow> ('j request \<Rightarrow> nat \<times> string) \<Rightarrow> faults \<Rightarrow> string \<Rightarrow> redis \<Rightarrow> 'j request
   \<Rightarrow> 'j reply \<times> redis \<times> call list \<times> (string \<times> event) list" where
  "files_route verify parse stringify backend f now r req =
     (case verifyToken verify stringify f r req of
        (Inl rep, r1, cs1) \<Rightarrow> (rep, r1, cs1, [])
      | (Inr req1, r1, cs1) \<Rightarrow>
          (case cacheMiddleware parse f r1 req1 \<lparr>json_wrapped = None\<rparr> of
             (Inl rep, cs2) \<Rightarrow> (rep, r1, cs1 @ cs2, [])
           | (Inr rs, cs2) \<Rightarrow>
               (case fileProxy backend now req1 of
                  (out, evs, cs3) \<Rightarrow>
                    (case respond stringify f r1 rs out of
                       (rep, r2, cs4) \<Rightarrow> (rep, r2, cs1 @ cs2 @ cs3 @ cs4, evs)))))"

text \<open>\<open>app.use('/api/auth', authProxy)\<close>\<close>

definition auth_route ::
  "('j \<Rightarrow> string) \<Rightarrow> ('j request \<Rightarrow> nat \<times> string) \<Rightarrow> faults \<Rightarrow> string \<Rightarrow> redis \<Rightarrow> 'j request
   \<Rightarrow> 'j reply \<times> redis \<times> call list \<times> (string \<times> event) list" where
  "auth_route stringify backend f now r req =
     (case authProxy backend now req of
        (out, evs, cs1) \<Rightarrow>
          (case respond stringify f r \<lparr>json_wrapped = None\<rparr> out of
             (rep, r1, cs2) \<Rightarrow> (rep, r1, cs1 @ cs2, evs)))"

record health_body =
  h_status :: string
  h_service :: string
  h_redis :: string
  h_timestamp :: string

text \<open>\<open>app.get('/health', ...)\<close>: \<open>res.json\<close> with no status set answers 200.\<close>

definition health :: "string \<Rightarrow> redis \<Rightarrow> nat \<times> health_body" where
  "health now r =
     (let redisStatus = (if isOpen r then ''connected'' else ''disconnected'')
      in (200, \<lparr>h_status = ''OK'', h_service = ''api-gateway'', h_redis = redisStatus,
                 h_timestamp = now\<rparr>))"

section \<open>The request as the gateway builds it, and the global limits\<close>

text \<open>
  What a client sends in the body of a request: nothing, JSON fields, urlencoded fields,
  or a multipart form with its fields and the name of the file it uploads, if any.
\<close>

datatype payload =
    NoPayload
  | JsonPayload "string \<rightharpoonup> string"
  | UrlencodedPayload "string \<rightharpoonup> string"
  | MultipartPayload "string \<rightharpoonup> string" "string option"

text \<open>
  \<open>app.use(express.json()); app.use(express.urlencoded({ extended: true }))\<close>: the only
  body parsers the gateway mounts. A JSON or urlencoded body becomes \<open>req.body\<close>; any
  other body is not read, and \<open>req.body\<close> has no fields.
\<close>

definition body_parsers :: "payload \<Rightarrow> (string \<rightharpoonup> string) option" where
  "body_parsers p =
     (case p of
        JsonPayload b \<Rightarrow> Some b
      | UrlencodedPayload b \<Rightarrow> Some b
      | _ \<Rightarrow> Some Map.empty)"

record incoming =
  in_ip :: string
  in_method :: string
  in_originalUrl :: string
  in_path :: string
  in_authorization :: "string option"
  in_payload :: payload

text \<open>
  The request object when it reaches a route: the body as the parsers left it, no
  \<open>req.file\<close> (the gateway mounts no multipart parser), no \<open>req.params.id\<close> (the routes
  are mounted with \<open>app.use\<close> on a fixed prefix) and no \<open>req.user\<close> yet.
\<close>

definition express_request :: "incoming \<Rightarrow> 'j request" where
  "express_request i =
     \<lparr>req_ip = in_ip i, req_method = in_method i, req_originalUrl = in_originalUrl i,
      req_path = in_path i, req_authorization = in_authorization i,
      req_body = body_parsers (in_payload i),
      req_file_originalname = None, req_params_id = None, req_user = None\<rparr>"





section \<open>Example inputs\<close>

text \<open>
  Concrete inputs for evaluating the model: JSON values are their own text
  (\<open>stringify = id\<close>, \<open>parse = Some\<close>), one token, \<open>good\<close>, verifies and decodes to the
  identity of user \<open>u1\<close>, and the requests are an authenticated listing and a
  multipart upload.
\<close>

definition good_identity :: "string identity" where
  "good_identity = \<lparr>userId = Some ''u1'', claims = ''{userId:u1}''\<rparr>"

definition example_verify :: "string \<Rightarrow> string identity option" where
  "example_verify t = (if t = ''good'' then Some good_identity else None)"

definition example_request :: "string request" where
  "example_request =
     \<lparr>req_ip = ''10.0.0.7'', req_method = ''GET'', req_originalUrl = ''/api/files'',
      req_path = ''/'', req_authorization = Some ''Bearer good'', req_body = Some Map.empty,
      req_file_originalname = None, req_params_id = None, req_user = None\<rparr>"

definition upload_incoming :: incoming where
  "upload_incoming =
     \<lparr>in_ip = ''10.0.0.7'', in_method = ''POST'', in_originalUrl = ''/api/files/upload'',
      in_path = ''/upload'', in_authorization = Some ''Bearer good'',
      in_payload = MultipartPayload Map.empty (Some ''notes.txt'')\<rparr>"

definition revoked_store :: redis where
  "revoked_store = empty_redis\<lparr>kv := [''token:good'' \<mapsto> ''blacklisted'',
                                      ''user:u1'' \<mapsto> ''{userId:u1}'']\<rparr>"

definition cached_store :: redis where
  "cached_store = empty_redis\<lparr>kv := [''user:u1'' \<mapsto> ''{userId:u1}'',
                                     ''cache:/api/files:u1'' \<mapsto> ''[1,2]'']\<rparr>"

definition write_fails :: faults where
  "write_fails = no_faults\<lparr>user_set_fails := True\<rparr>"

section \<open>Properties of the rate limiter and the throttle\<close>

lemma increment_ok:
  "increment False False r ip =
     (let c = (case hits r ip of None \<Rightarrow> 1 | Some n \<Rightarrow> n + 1)
      in (c, (if c = 1 then r\<lparr>hits := (hits r)(ip \<mapsto> c), ttl := (ttl r)(ip \<mapsto> 900)\<rparr>
              else r\<lparr>hits := (hits r)(ip \<mapsto> c)\<rparr>)))"
  by (simp add: increment_def incr_def expire_def Let_def)

lemma increment_hits:
  "hits (snd (increment False False r ip)) ip =
     Some (case hits r ip of None \<Rightarrow> 1 | Some n \<Rightarrow> n + 1)"
  by (simp add: increment_ok Let_def)

lemma increment_fst:
  "fst (increment False False r ip) = (case hits r ip of None \<Rightarrow> 1 | Some n \<Rightarrow> n + 1)"
  by (simp add: increment_ok Let_def)

text \<open>The first increment of a window asks for the 15-minute expiry on the same key.\<close>

lemma increment_first_sets_expiry:
  "hits r ip = None \<Longrightarrow> ttl (snd (increment False False r ip)) ip = Some 900"
  by (simp add: increment_ok)

lemma rate_check_redis:
  "fst (snd (rate_check fi fe s ip)) = snd (increment fi fe (fst s) ip)"
  by (simp add: rate_check_def limiter_def Let_def case_prod_beta)

lemma hits_after_requests:
  "hits (fst s) ip = None \<Longrightarrow>
   hits (fst (after_requests n s ip)) ip = (if n = 0 then None else Some (int n))"
proof (induction n)
  case 0
  then show ?case by simp
next
  case (Suc n)
  then show ?case
    by (cases "n = 0") (simp_all add: rate_check_redis increment_hits)
qed

lemma rate_check_decision:
  "fst (rate_check False False s ip) =
     (let c = (case hits (fst s) ip of None \<Rightarrow> 1 | Some n \<Rightarrow> n + 1)
      in if c > 100 then Reject
         else (let d = slow_delay (case snd s ip of None \<Rightarrow> 1 | Some k \<Rightarrow> k + 1)
               in if d = 0 then Allow else Delay d))"
  by (simp add: rate_check_def limiter_def limiter_max_def speedLimiter_def increment_fst Let_def
      case_prod_beta)

lemma rate_check_mem:
  "snd (snd (rate_check False False s ip)) ip =
     (let c = (case hits (fst s) ip of None \<Rightarrow> 1 | Some n \<Rightarrow> n + 1)
      in if c > 100 then snd s ip
         else Some (case snd s ip of None \<Rightarrow> 1 | Some k \<Rightarrow> k + 1))"
  by (simp add: rate_check_def limiter_def limiter_max_def speedLimiter_def increment_fst Let_def
      case_prod_beta)

text \<open>The throttle's own count follows the Redis count up to the hard cap and stops
  there, since rejected requests never reach it.\<close>

lemma mem_after_requests:
  "hits (fst s) ip = None \<Longrightarrow> snd s ip = None \<Longrightarrow>
   snd (after_requests n s ip) ip = (if n = 0 then None else Some (min n 100))"
proof (induction n)
  case 0
  then show ?case by simp
next
  case (Suc n)
  then show ?case
    by (cases "n = 0") (auto simp add: rate_check_mem hits_after_requests Let_def min_def)
qed

lemma nth_request_decision:
  assumes "hits (fst s) ip = None" and "1 \<le> n"
  shows "nth_request n s ip =
     (if n > 100 then Reject
      else (let d = slow_delay (case snd (after_requests (n - 1) s ip) ip of
                                  None \<Rightarrow> 1 | Some k \<Rightarrow> k + 1)
            in if d = 0 then Allow else Delay d))"
  using assms
  by (cases "n = 1")
     (auto simp add: nth_request_def rate_check_decision hits_after_requests Let_def)



text \<open>The throttle's delay follows its own table, not the Redis counter. With 60
  requests counted in Redis and an empty table (a gateway process started within the
  window, or a second process behind the balancer) the 61st request of the window is not
  delayed; with a fresh Redis window and 70 in the table the first request of the window
  waits 10500 ms.\<close>

theorem delay_not_linear_when_counts_differ:
  "hits (empty_redis\<lparr>hits := [''10.0.0.7'' \<mapsto> 60]\<rparr>) ''10.0.0.7'' = Some 60
   \<and> fst (rate_check False False (empty_redis\<lparr>hits := [''10.0.0.7'' \<mapsto> 60]\<rparr>, Map.empty)
            ''10.0.0.7'') = Allow
   \<and> hits empty_redis ''10.0.0.7'' = None
   \<and> fst (rate_check False False (empty_redis, [''10.0.0.7'' \<mapsto> 70]) ''10.0.0.7'')
       = Delay 10500"
  by (simp add: rate_check_decision empty_redis_def slow_delay_def delayAfter_def delayMs_def)

text \<open>
  C2, as amended. In a window that starts with no counter for the client address, neither
  in Redis nor in the throttle's own table, and with the store answering every call, the
  n-th request for n from 51 to 100 is decided Delay with (n - 50) * 500 milliseconds: the
  delay is not zero, and it is strictly larger than the delay of every earlier request
  above the 50th.
\<close>

theorem delay_linear_above_50:
  assumes "hits (fst s) ip = None" and "snd s ip = None"
  shows "\<forall>n. 50 < n \<and> n \<le> 100 \<longrightarrow>
           nth_request n s ip = Delay ((n - 50) * 500)
         \<and> 0 < (n - 50) * 500
         \<and> (\<forall>k. 50 < k \<and> k < n \<longrightarrow>
               (\<exists>dk dn. nth_request k s ip = Delay dk \<and> nth_request n s ip = Delay dn
                         \<and> dk < dn))"
  using assms
  by (auto simp add: nth_request_decision mem_after_requests slow_delay_def delayAfter_def
      delayMs_def Let_def min_def)

theorem delay_linear_above_50_witness:
  "hits (fst (empty_redis, Map.empty)) ''10.0.0.7'' = None
   \<and> snd (empty_redis, Map.empty :: string \<rightharpoonup> nat) ''10.0.0.7'' = None
   \<and> nth_request 51 (empty_redis, Map.empty) ''10.0.0.7'' = Delay 500
   \<and> nth_request 100 (empty_redis, Map.empty) ''10.0.0.7'' = Delay 25000"
  using delay_linear_above_50 [of "(empty_redis, Map.empty)" "''10.0.0.7''"]
  by (simp add: empty_redis_def)

text \<open>A store error does not make the decision Allow when the throttle has counted past
  its threshold: with 60 in the throttle's table the request is delayed 5500 ms; and a
  request that the answering store would have rejected (150 counted) is, with the INCR
  rejected, delayed 25500 ms instead.\<close>

theorem store_failure_not_always_allow:
  "fst (rate_check True False (empty_redis, [''10.0.0.7'' \<mapsto> 60]) ''10.0.0.7'') = Delay 5500
   \<and> fst (rate_check False False
            (empty_redis\<lparr>hits := [''10.0.0.7'' \<mapsto> 150]\<rparr>, [''10.0.0.7'' \<mapsto> 100])
            ''10.0.0.7'') = Reject
   \<and> fst (rate_check True False
            (empty_redis\<lparr>hits := [''10.0.0.7'' \<mapsto> 150]\<rparr>, [''10.0.0.7'' \<mapsto> 100])
            ''10.0.0.7'') = Delay 25500"
  by (simp add: rate_check_def limiter_def limiter_max_def increment_def incr_def
      speedLimiter_def slow_delay_def delayAfter_def delayMs_def empty_redis_def Let_def)

text \<open>An INCR that is answered followed by an EXPIRE that rejects leaves the counter at 1
  with no expiry asked for.\<close>

lemma expire_failure_leaves_no_expiry:
  assumes "hits r ip = None"
  shows "increment False True r ip = (1, r\<lparr>hits := (hits r)(ip \<mapsto> 1)\<rparr>)
       \<and> ttl (snd (increment False True r ip)) ip = ttl r ip"
  using assms by (simp add: increment_def incr_def expire_def Let_def)

text \<open>
  C6, as amended. When a counter-store call of \<open>increment\<close> rejects (the INCR, or the
  EXPIRE that follows a count of 1), \<open>increment\<close> reports one hit and the limiter lets
  that request pass: it is never decided Reject. The decision is then the one the throttle
  takes from its own table alone, the same as without the error: Allow whenever the
  throttle has counted fewer than 50 requests, Delay otherwise.
\<close>

theorem counter_store_failure_fails_open:
  assumes "incr_fails \<or> (expire_fails \<and> (case hits r ip of None \<Rightarrow> 1 | Some n \<Rightarrow> n + 1) = 1)"
  shows "fst (increment incr_fails expire_fails r ip) = 1
       \<and> \<not> fst (limiter incr_fails expire_fails r ip)
       \<and> fst (rate_check incr_fails expire_fails (r, m) ip) \<noteq> Reject
       \<and> fst (rate_check incr_fails expire_fails (r, m) ip) =
           (if fst (speedLimiter m ip) = 0 then Allow else Delay (fst (speedLimiter m ip)))
       \<and> ((case m ip of None \<Rightarrow> 0 | Some c \<Rightarrow> c) < 50 \<longrightarrow>
             fst (rate_check incr_fails expire_fails (r, m) ip) = Allow)"
proof -
  have one: "fst (increment incr_fails expire_fails r ip) = 1"
    using assms
    by (auto simp add: increment_def incr_def expire_def Let_def split: option.splits)
  then have pass: "\<not> fst (limiter incr_fails expire_fails r ip)"
    by (simp add: limiter_def limiter_max_def case_prod_beta)
  then have dec: "fst (rate_check incr_fails expire_fails (r, m) ip) =
           (if fst (speedLimiter m ip) = 0 then Allow else Delay (fst (speedLimiter m ip)))"
    by (simp add: rate_check_def case_prod_beta)
  have low: "(case m ip of None \<Rightarrow> 0 | Some c \<Rightarrow> c) < 50 \<Longrightarrow> fst (speedLimiter m ip) = 0"
    by (simp add: speedLimiter_def slow_delay_def delayAfter_def Let_def split: option.splits)
  show ?thesis
    using one pass dec low by simp
qed

theorem counter_store_failure_fails_open_witness:
  "(True \<or> (False \<and> (case hits (empty_redis\<lparr>hits := [''10.0.0.7'' \<mapsto> 500]\<rparr>) ''10.0.0.7'' of
                        None \<Rightarrow> 1 | Some n \<Rightarrow> n + 1) = 1))
   \<and> fst (increment True False (empty_redis\<lparr>hits := [''10.0.0.7'' \<mapsto> 500]\<rparr>) ''10.0.0.7'') = 1
   \<and> fst (rate_check True False (empty_redis\<lparr>hits := [''10.0.0.7'' \<mapsto> 500]\<rparr>, Map.empty)
            ''10.0.0.7'') = Allow"
  using counter_store_failure_fails_open
    [of True False "empty_redis\<lparr>hits := [''10.0.0.7'' \<mapsto> 500]\<rparr>" "''10.0.0.7''" Map.empty]
  by (simp add: speedLimiter_def slow_delay_def delayAfter_def)

section \<open>Properties of token validation\<close>

lemma token_of_example: "token_of example_request = Some ''good''"
  by (simp add: token_of_def example_request_def second_def)

text \<open>
  C3. A request bears a token when the second word of its authorization header is not
  empty. When the store holds \<open>blacklisted\<close> under that token's key, validation answers
  401 and never calls \<open>jwt.verify\<close>, whatever \<open>jwt.verify\<close> would say and whatever the
  identity cache holds; when the lookup is answered, the reply is \<open>Token has been revoked\<close>,
  the lookup is the only call made and the store is left as it was.
\<close>

theorem revoked_token_rejected:
  assumes "token_of req = Some tok" and "tok \<noteq> []"
    and "kv r (''token:'' @ tok) = Some ''blacklisted''"
  shows "(\<exists>msg. fst (verifyToken verify stringify f r req) = Inl (ErrorJson 401 msg))
       \<and> (\<forall>t. JwtVerify t \<notin> set (snd (snd (verifyToken verify stringify f r req))))
       \<and> (\<not> token_get_fails f \<longrightarrow>
            verifyToken verify stringify f r req =
              (Inl (ErrorJson 401 ''Token has been revoked''), r, [RedisGet (''token:'' @ tok)]))"
  using assms
  by (simp add: verifyToken_def truthy_def tmpl_def get_def invalid_token_def Let_def)

theorem revoked_token_rejected_witness:
  "token_of example_request = Some ''good'' \<and> ''good'' \<noteq> []
   \<and> kv revoked_store (''token:'' @ ''good'') = Some ''blacklisted''
   \<and> kv revoked_store ''user:u1'' = Some ''{userId:u1}''
   \<and> example_verify ''good'' = Some good_identity
   \<and> verifyToken example_verify id no_faults revoked_store example_request =
      (Inl (ErrorJson 401 ''Token has been revoked''), revoked_store, [RedisGet ''token:good''])"
  using revoked_token_rejected [of example_request "''good''" revoked_store
      example_verify id no_faults]
  by (simp add: token_of_example example_verify_def no_faults_def revoked_store_def)

text \<open>What holds of verification and the identity cache for every store and every
  failure of the store: a token that fails verification is answered 401; a request is
  passed on only with the identity that \<open>jwt.verify\<close> returned for its token; and as long
  as the write to the identity cache does not reject, the outcome depends on the store
  through the revocation record alone.\<close>

lemma verification_failure_rejected:
  assumes "token_of req = Some tok" and "tok \<noteq> []" and "verify tok = None"
  shows "\<exists>msg. fst (verifyToken verify stringify f r req) = Inl (ErrorJson 401 msg)"
  using assms
  by (simp add: verifyToken_def truthy_def tmpl_def get_def invalid_token_def Let_def)

lemma passed_identity_is_verified:
  assumes "fst (verifyToken verify stringify f r req) = Inr req'"
  shows "\<exists>tok d. token_of req = Some tok \<and> verify tok = Some d
           \<and> req' = req\<lparr>req_user := Some d\<rparr>
           \<and> JwtVerify tok \<in> set (snd (snd (verifyToken verify stringify f r req)))"
  using assms
  by (auto simp add: verifyToken_def truthy_def tmpl_def get_def setEx_def invalid_token_def
      Let_def split: option.splits if_splits)

lemma outcome_independent_of_identity_cache:
  assumes "token_of req = Some tok" and "kv r1 (''token:'' @ tok) = kv r2 (''token:'' @ tok)"
    and "\<not> user_set_fails f"
  shows "fst (verifyToken verify stringify f r1 req) = fst (verifyToken verify stringify f r2 req)"
  using assms
  by (auto simp add: verifyToken_def truthy_def tmpl_def get_def setEx_def invalid_token_def
      Let_def split: option.splits if_splits)

text \<open>
  C4. The outcome of validation is not independent of the identity cache. With the same
  request, the same valid token and the same store behaviour (reads answered, the
  set-with-TTL rejected), an empty identity cache gives 401 \<open>Invalid or expired token\<close>,
  and a cache that already holds the subject's identity passes the request on with the
  verified identity: the cached entry decides whether the write is attempted, and the
  rejected write ends in the \<open>catch\<close> meant for \<open>jwt.verify\<close>.
\<close>

theorem outcome_depends_on_identity_cache:
  "fst (verifyToken example_verify id write_fails empty_redis example_request)
     = Inl (ErrorJson 401 ''Invalid or expired token'')
   \<and> fst (verifyToken example_verify id write_fails
            (empty_redis\<lparr>kv := [''user:u1'' \<mapsto> ''{userId:u1}'']\<rparr>) example_request)
     = Inr (example_request\<lparr>req_user := Some good_identity\<rparr>)"
  by (simp add: verifyToken_def token_of_example truthy_def tmpl_def get_def setEx_def
      invalid_token_def example_verify_def good_identity_def no_faults_def write_fails_def
      empty_redis_def Let_def)

text \<open>
  C5. A rejected write to the identity cache fails the request: for a token that is not
  revoked and that verifies, with no identity cached for its subject and both reads
  answered, a rejected set-with-TTL makes validation answer 401
  \<open>Invalid or expired token\<close> instead of passing the request on; the store is unchanged.
\<close>

theorem cache_write_failure_fails_request:
  assumes "token_of req = Some tok" and "tok \<noteq> []"
    and "kv r (''token:'' @ tok) \<noteq> Some ''blacklisted''"
    and "verify tok = Some d"
    and "\<not> truthy (kv r (''user:'' @ tmpl (userId d)))"
    and "\<not> token_get_fails f" and "\<not> user_get_fails f" and "user_set_fails f"
  shows "fst (verifyToken verify stringify f r req) = Inl (ErrorJson 401 ''Invalid or expired token'')
       \<and> fst (snd (verifyToken verify stringify f r req)) = r"
  using assms
  by (simp add: verifyToken_def truthy_def tmpl_def get_def setEx_def invalid_token_def Let_def)

theorem cache_write_failure_fails_request_witness:
  "token_of example_request = Some ''good'' \<and> ''good'' \<noteq> []
   \<and> kv empty_redis (''token:'' @ ''good'') \<noteq> Some ''blacklisted''
   \<and> example_verify ''good'' = Some good_identity
   \<and> \<not> truthy (kv empty_redis (''user:'' @ tmpl (userId good_identity)))
   \<and> user_set_fails write_fails
   \<and> fst (verifyToken example_verify id write_fails empty_redis example_request)
       = Inl (ErrorJson 401 ''Invalid or expired token'')"
  using cache_write_failure_fails_request [of example_request "''good''" empty_redis
      example_verify good_identity write_fails id]
  by (simp add: token_of_example example_verify_def no_faults_def write_fails_def
      empty_redis_def truthy_def)

section \<open>Properties of the response cache\<close>

lemma verifyToken_no_proxy:
  "ProxyWeb u p \<notin> set (snd (snd (verifyToken verify stringify f r req)))"
  by (auto simp add: verifyToken_def get_def setEx_def Let_def split: option.splits if_splits)

lemma verifyToken_no_cache_write:
  "RedisSetEx k 300 v \<notin> set (snd (snd (verifyToken verify stringify f r req)))"
  by (auto simp add: verifyToken_def get_def setEx_def Let_def split: option.splits if_splits)

lemma cacheMiddleware_reads_only:
  "set (snd (cacheMiddleware parse f r req rs)) \<subseteq> {RedisGet (cacheKey req)}"
  by (auto simp add: cacheMiddleware_def get_def Let_def split: option.splits if_splits)

lemma verify_example_cached:
  "verifyToken example_verify id no_faults cached_store example_request =
     (Inr (example_request\<lparr>req_user := Some good_identity\<rparr>), cached_store,
      [RedisGet ''token:good'', JwtVerify ''good'', RedisGet ''user:u1''])"
  by (simp add: verifyToken_def token_of_example truthy_def tmpl_def get_def
      example_verify_def good_identity_def no_faults_def cached_store_def empty_redis_def Let_def)

lemma cacheKey_example:
  "cacheKey (example_request\<lparr>req_user := Some good_identity\<rparr>) = ''cache:/api/files:u1''"
  by (simp add: cacheKey_def user_id_def js_or_def example_request_def good_identity_def)

text \<open>The key is built from the URL as received, not from a normalised path: the same
  route with a query string or a trailing slash, for the same identity, has another key.
  An identity that carries no \<open>userId\<close> is keyed \<open>anonymous\<close> although there is an
  identity.\<close>

theorem cache_key_not_normalised:
  "req_path (example_request\<lparr>req_originalUrl := ''/api/files?x=1''\<rparr>) = req_path example_request
   \<and> req_user (example_request\<lparr>req_originalUrl := ''/api/files?x=1''\<rparr>) = req_user example_request
   \<and> cacheKey (example_request\<lparr>req_originalUrl := ''/api/files?x=1''\<rparr>) \<noteq> cacheKey example_request
   \<and> cacheKey (example_request\<lparr>req_originalUrl := ''/api/files/''\<rparr>) \<noteq> cacheKey example_request
   \<and> cacheKey (example_request\<lparr>req_user := Some \<lparr>userId = None, claims = ''{name:a}''\<rparr>\<rparr>)
       = ''cache:/api/files:anonymous''"
  by (simp add: cacheKey_def user_id_def js_or_def example_request_def)

text \<open>
  C7, as amended. A request that is not a GET passes the cache untouched: no store call
  is made and the response object is as it was. The key is \<open>cache:\<close>, the request's
  original URL as received (query string included, nothing normalised), a colon, and the
  identity's \<open>userId\<close>, or \<open>anonymous\<close> when there is no identity or its \<open>userId\<close> is
  undefined or empty; on the files route the identity is the one \<open>jwt.verify\<close> returned
  for the request's token. For a GET whose key holds a non-empty text that \<open>JSON.parse\<close>
  accepts, with the read answered, the parsed value is sent with \<open>res.json\<close> and status
  200; on the files route the reply is that value whatever the backend would answer,
  nothing is written, no event is scheduled and the proxy is not called.
\<close>

theorem cache_get_only_key_and_hit:
  "(req_method req \<noteq> ''GET'' \<longrightarrow> cacheMiddleware parse f r req rs = (Inr rs, []))
   \<and> cacheKey req = ''cache:'' @ req_originalUrl req @ '':'' @
        (case req_user req of
           None \<Rightarrow> ''anonymous''
         | Some u \<Rightarrow> (case userId u of
                       None \<Rightarrow> ''anonymous''
                     | Some s \<Rightarrow> if s = [] then ''anonymous'' else s))
   \<and> (verifyToken verify stringify f r0 req0 = (Inr req, r, cs) \<longrightarrow>
        (\<exists>tok idn. token_of req0 = Some tok \<and> verify tok = Some idn
           \<and> cacheKey req =
               ''cache:'' @ req_originalUrl req0 @ '':'' @ js_or (userId idn) ''anonymous''))
   \<and> (req_method req = ''GET'' \<and> \<not> cache_get_fails f \<and> kv r (cacheKey req) = Some s
        \<and> s \<noteq> [] \<and> parse s = Some d \<longrightarrow>
        cacheMiddleware parse f r req rs = (Inl (BodyJson 200 d), [RedisGet (cacheKey req)]))
   \<and> (req_method req = ''GET'' \<and> \<not> cache_get_fails f \<and> kv r (cacheKey req) = Some s
        \<and> s \<noteq> [] \<and> parse s = Some d
        \<and> verifyToken verify stringify f r0 req0 = (Inr req, r, cs) \<longrightarrow>
        files_route verify parse stringify backend f now r0 req0 =
          (BodyJson 200 d, r, cs @ [RedisGet (cacheKey req)], [])
        \<and> (\<forall>u p. ProxyWeb u p \<notin> set (cs @ [RedisGet (cacheKey req)])))"
proof -
  have a: "req_method req \<noteq> ''GET'' \<longrightarrow> cacheMiddleware parse f r req rs = (Inr rs, [])"
    by (simp add: cacheMiddleware_def)
  have b: "cacheKey req = ''cache:'' @ req_originalUrl req @ '':'' @
        (case req_user req of
           None \<Rightarrow> ''anonymous''
         | Some u \<Rightarrow> (case userId u of
                       None \<Rightarrow> ''anonymous''
                     | Some s \<Rightarrow> if s = [] then ''anonymous'' else s))"
    by (simp add: cacheKey_def user_id_def js_or_def split: option.splits)
  have k: "\<exists>tok idn. token_of req0 = Some tok \<and> verify tok = Some idn
           \<and> cacheKey req =
               ''cache:'' @ req_originalUrl req0 @ '':'' @ js_or (userId idn) ''anonymous''"
    if v: "verifyToken verify stringify f r0 req0 = (Inr req, r, cs)"
  proof -
    from v have "fst (verifyToken verify stringify f r0 req0) = Inr req" by simp
    from passed_identity_is_verified [OF this]
    obtain tok idn where "token_of req0 = Some tok" "verify tok = Some idn"
      "req = req0\<lparr>req_user := Some idn\<rparr>" by blast
    then show ?thesis
      by (simp add: cacheKey_def user_id_def)
  qed
  have c: "cacheMiddleware parse f r req rs' = (Inl (BodyJson 200 d), [RedisGet (cacheKey req)])"
    if "req_method req = ''GET''" "\<not> cache_get_fails f" "kv r (cacheKey req) = Some s"
       "s \<noteq> []" "parse s = Some d" for rs'
    using that by (simp add: cacheMiddleware_def get_def truthy_def tmpl_def Let_def)
  have d: "files_route verify parse stringify backend f now r0 req0 =
                (BodyJson 200 d, r, cs @ [RedisGet (cacheKey req)], [])
              \<and> (\<forall>u p. ProxyWeb u p \<notin> set (cs @ [RedisGet (cacheKey req)]))"
    if "req_method req = ''GET''" "\<not> cache_get_fails f" "kv r (cacheKey req) = Some s"
       "s \<noteq> []" "parse s = Some d" "verifyToken verify stringify f r0 req0 = (Inr req, r, cs)"
  proof -
    have "\<forall>u p. ProxyWeb u p \<notin> set cs"
      using verifyToken_no_proxy [of _ _ verify stringify f r0 req0] that(6) by simp
    then show ?thesis
      using that c [OF that(1-5)] by (simp add: files_route_def)
  qed
  show ?thesis
    using a b c d k by blast
qed

theorem cache_get_only_key_and_hit_witness:
  "req_method (example_request\<lparr>req_user := Some good_identity\<rparr>) = ''GET''
   \<and> kv cached_store (cacheKey (example_request\<lparr>req_user := Some good_identity\<rparr>)) = Some ''[1,2]''
   \<and> cacheKey (example_request\<lparr>req_user := Some good_identity\<rparr>) = ''cache:/api/files:u1''
   \<and> req_method (express_request upload_incoming :: string request) = ''POST''
   \<and> cacheMiddleware Some no_faults cached_store (express_request upload_incoming)
        \<lparr>json_wrapped = None\<rparr>
       = (Inr \<lparr>json_wrapped = None\<rparr>, [])
   \<and> files_route example_verify Some id (\<lambda>_. (500, ''backend'')) no_faults ''t0'' cached_store
        example_request =
      (BodyJson 200 ''[1,2]'', cached_store,
       [RedisGet ''token:good'', JwtVerify ''good'', RedisGet ''user:u1'',
        RedisGet ''cache:/api/files:u1''], [])"
  using cache_get_only_key_and_hit [where req = "example_request\<lparr>req_user := Some good_identity\<rparr>"
      and parse = Some and f = no_faults and r = cached_store and rs = "\<lparr>json_wrapped = None\<rparr>"
      and s = "''[1,2]''" and d = "''[1,2]''" and verify = example_verify and stringify = id
      and ?r0.0 = cached_store and ?req0.0 = example_request
      and cs = "[RedisGet ''token:good'', JwtVerify ''good'', RedisGet ''user:u1'']"
      and backend = "\<lambda>_. (500, ''backend'')" and now = "''t0''"]
    cache_get_only_key_and_hit [where req = "express_request upload_incoming :: string request"
      and parse = Some and f = no_faults and r = cached_store and rs = "\<lparr>json_wrapped = None\<rparr>"]
    verify_example_cached cacheKey_example
  by (simp add: example_request_def express_request_def upload_incoming_def no_faults_def
      cached_store_def empty_redis_def)

text \<open>What the caching wrapper does when a handler does call \<open>res.json\<close>: the body is
  written under the key for 300 seconds and sent; a rejected write leaves the store as it
  was and the reply is the same.\<close>

lemma res_json_caches:
  assumes "json_wrapped rs = Some k"
  shows "fst (res_json stringify f r rs st d) = BodyJson st d
       \<and> (\<not> cache_set_fails f \<longrightarrow>
            res_json stringify f r rs st d =
              (BodyJson st d, r\<lparr>kv := (kv r)(k \<mapsto> stringify d), ttl := (ttl r)(k \<mapsto> 300)\<rparr>,
               [RedisSetEx k 300 (stringify d)]))
       \<and> (cache_set_fails f \<longrightarrow> fst (snd (res_json stringify f r rs st d)) = r)"
  using assms by (simp add: res_json_def setEx_def Let_def)

text \<open>The files route never writes a response to the cache: the proxy pipes the
  backend's response and does not go through \<open>res.json\<close>.\<close>

lemma files_route_never_caches:
  "RedisSetEx k 300 v \<notin>
     set (fst (snd (snd (files_route verify parse stringify backend f now r req))))"
proof -
  obtain a r1 cs1 where v: "verifyToken verify stringify f r req = (a, r1, cs1)"
    by (cases "verifyToken verify stringify f r req") auto
  have n1: "RedisSetEx k 300 v \<notin> set cs1"
    using verifyToken_no_cache_write [of k v verify stringify f r req] v by simp
  show ?thesis
  proof (cases a)
    case (Inl rep)
    with v n1 show ?thesis by (simp add: files_route_def)
  next
    case (Inr req1)
    obtain b cs2 where c: "cacheMiddleware parse f r1 req1 \<lparr>json_wrapped = None\<rparr> = (b, cs2)"
      by (cases "cacheMiddleware parse f r1 req1 \<lparr>json_wrapped = None\<rparr>") auto
    have n2: "RedisSetEx k 300 v \<notin> set cs2"
      using cacheMiddleware_reads_only [of parse f r1 req1 "\<lparr>json_wrapped = None\<rparr>"] c by auto
    show ?thesis
      using v Inr c n1 n2
      by (cases b) (auto simp add: files_route_def fileProxy_def respond_def case_prod_beta)
  qed
qed

text \<open>
  C8. A GET that misses the cache is not cached. For the authenticated listing, with an
  empty store that answers every call and a backend that answers 200 with body \<open>[1,2]\<close>,
  the files route reads the key \<open>cache:/api/files:u1\<close>, calls the proxy and pipes the
  body to the client; the only write is the identity under \<open>user:u1\<close>, and the cache key
  is still empty afterwards.
\<close>

theorem proxied_get_is_not_cached:
  "files_route example_verify Some id (\<lambda>_. (200, ''[1,2]'')) no_faults ''t0'' empty_redis
     example_request =
   (Streamed 200 ''[1,2]'',
    empty_redis\<lparr>kv := [''user:u1'' \<mapsto> ''{userId:u1}''], ttl := [''user:u1'' \<mapsto> 3600]\<rparr>,
    [RedisGet ''token:good'', JwtVerify ''good'', RedisGet ''user:u1'',
     RedisSetEx ''user:u1'' 3600 ''{userId:u1}'', RedisGet ''cache:/api/files:u1'',
     ProxyWeb ''http://file-service:3002'' ''/api/files''],
    [])
   \<and> kv (fst (snd (files_route example_verify Some id (\<lambda>_. (200, ''[1,2]'')) no_faults ''t0''
                      empty_redis example_request))) ''cache:/api/files:u1'' = None"
proof -
  have v: "verifyToken example_verify id no_faults empty_redis example_request =
     (Inr (example_request\<lparr>req_user := Some good_identity\<rparr>),
      empty_redis\<lparr>kv := [''user:u1'' \<mapsto> ''{userId:u1}''], ttl := [''user:u1'' \<mapsto> 3600]\<rparr>,
      [RedisGet ''token:good'', JwtVerify ''good'', RedisGet ''user:u1'',
       RedisSetEx ''user:u1'' 3600 ''{userId:u1}''])"
    by (simp add: verifyToken_def token_of_example truthy_def tmpl_def get_def setEx_def
        example_verify_def good_identity_def no_faults_def empty_redis_def Let_def)
  have c: "cacheMiddleware Some no_faults
        (empty_redis\<lparr>kv := [''user:u1'' \<mapsto> ''{userId:u1}''], ttl := [''user:u1'' \<mapsto> 3600]\<rparr>)
        (example_request\<lparr>req_user := Some good_identity\<rparr>) \<lparr>json_wrapped = None\<rparr> =
      (Inr \<lparr>json_wrapped = Some ''cache:/api/files:u1''\<rparr>, [RedisGet ''cache:/api/files:u1''])"
    by (simp add: cacheMiddleware_def cacheKey_example get_def truthy_def no_faults_def
        empty_redis_def Let_def) (simp add: example_request_def)
  have p: "fileProxy (\<lambda>_. (200, ''[1,2]'')) ''t0''
             (example_request\<lparr>req_user := Some good_identity\<rparr>) =
      (Pipes 200 ''[1,2]'', [], [ProxyWeb ''http://file-service:3002'' ''/api/files''])"
    by (simp add: fileProxy_def fileProxy_onProxyRes_def FILE_SERVICE_URL_def example_request_def)
  show ?thesis
    by (simp add: files_route_def v c p respond_def)
qed

section \<open>Properties of event publishing\<close>

text \<open>A rejected \<open>producer.send\<close> publishes nothing and is not retried.\<close>

lemma publish_failure_dropped: "publishEvent True sent topic e log = log"
  by (simp add: publishEvent_def)

text \<open>The hooks by themselves: at most one event for a response, and none for a response
  that matches no pattern of its proxy.\<close>

lemma hook_events:
  "length (authProxy_onProxyRes now req st) \<le> 1
   \<and> length (fileProxy_onProxyRes now req st) \<le> 1
   \<and> (\<not> (req_method req = ''POST'' \<and> js_includes (req_path req) ''/login'' \<and> st = 200)
        \<and> \<not> (req_method req = ''POST'' \<and> js_includes (req_path req) ''/register'' \<and> st = 201) \<longrightarrow>
        authProxy_onProxyRes now req st = [])
   \<and> (\<not> (req_method req = ''POST'' \<and> js_includes (req_path req) ''/upload'' \<and> st = 201)
        \<and> \<not> (req_method req = ''DELETE'' \<and> st = 200) \<longrightarrow>
        fileProxy_onProxyRes now req st = [])"
  by (simp add: authProxy_onProxyRes_def fileProxy_onProxyRes_def)

text \<open>The auth route: a JSON login answered 200 schedules one \<open>USER_LOGIN_ATTEMPT\<close> for
  \<open>user-events\<close> with the submitted email, published under the key \<open>system\<close> with the
  time of sending.\<close>

lemma login_publishes_attempt:
  assumes "in_method i = ''POST''" and "js_includes (in_path i) ''/login''"
    and "in_payload i = JsonPayload b"
    and "backend (express_request i) = (200, body)"
  shows "snd (snd (snd (auth_route stringify backend f now r (express_request i)))) =
           [(''user-events'',
             \<lparr>ev_type = ''USER_LOGIN_ATTEMPT'', ev_attrs = [(''email'', b ''email'')],
              ev_timestamp = now\<rparr>)]
       \<and> run_immediates (\<lambda>_. False) sent
            (snd (snd (snd (auth_route stringify backend f now r (express_request i))))) log =
           log @ [(''user-events'',
                   \<lparr>msg_key = ''system'',
                    msg_value = \<lparr>ev_type = ''USER_LOGIN_ATTEMPT'',
                                 ev_attrs = [(''email'', b ''email'')],
                                 ev_timestamp = sent\<rparr>\<rparr>)]"
proof -
  have m: "req_method (express_request i :: 'a request) = ''POST''"
    "js_includes (req_path (express_request i :: 'a request)) ''/login''"
    "body_prop (express_request i :: 'a request) ''email'' = b ''email''"
    using assms(1-3) by (simp_all add: express_request_def body_parsers_def body_prop_def)
  have evs: "snd (snd (snd (auth_route stringify backend f now r (express_request i)))) =
           [(''user-events'',
             \<lparr>ev_type = ''USER_LOGIN_ATTEMPT'', ev_attrs = [(''email'', b ''email'')],
              ev_timestamp = now\<rparr>)]"
    using m assms(4)
    by (simp add: auth_route_def authProxy_def authProxy_onProxyRes_def respond_def)
  show ?thesis
    by (simp add: evs publishEvent_def ev_userId_def js_or_def)
qed

text \<open>The files route: what the proxy schedules for a request that passed validation and,
  being no GET, the cache.\<close>

lemma files_route_events:
  assumes v: "verifyToken verify stringify f r req = (Inr req1, r1, cs1)"
    and m: "req_method req \<noteq> ''GET''"
  shows "snd (snd (snd (files_route verify parse stringify backend f now r req))) =
           fileProxy_onProxyRes now req1 (fst (backend req1))
       \<and> (\<exists>tok idn. token_of req = Some tok \<and> verify tok = Some idn
             \<and> req1 = req\<lparr>req_user := Some idn\<rparr>)"
proof -
  from v have "fst (verifyToken verify stringify f r req) = Inr req1" by simp
  from passed_identity_is_verified [OF this]
  obtain tok idn where t: "token_of req = Some tok" "verify tok = Some idn"
    "req1 = req\<lparr>req_user := Some idn\<rparr>" by blast
  then have "req_method req1 \<noteq> ''GET''" using m by simp
  then have c: "cacheMiddleware parse f r1 req1 \<lparr>json_wrapped = None\<rparr> =
      (Inr \<lparr>json_wrapped = None\<rparr>, [])"
    by (simp add: cacheMiddleware_def)
  have "snd (snd (snd (files_route verify parse stringify backend f now r req))) =
           fileProxy_onProxyRes now req1 (fst (backend req1))"
    by (simp add: files_route_def v c fileProxy_def respond_def case_prod_beta)
  with t show ?thesis by blast
qed

text \<open>A DELETE answered 200 schedules one \<open>FILE_DELETED\<close> for \<open>file-events\<close> with the
  verified identity's \<open>userId\<close>.\<close>

lemma delete_publishes_deleted:
  assumes "verifyToken verify stringify f r (express_request i) = (Inr req1, r1, cs1)"
    and "in_method i = ''DELETE''" and "backend req1 = (200, body)"
  shows "snd (snd (snd (files_route verify parse stringify backend f now r (express_request i)))) =
           [(''file-events'',
             \<lparr>ev_type = ''FILE_DELETED'',
              ev_attrs = [(''userId'', user_id req1), (''fileId'', None)],
              ev_timestamp = now\<rparr>)]"
proof -
  have m: "req_method (express_request i :: 'a request) \<noteq> ''GET''"
    using assms(2) by (simp add: express_request_def)
  from files_route_events [OF assms(1) m]
  obtain tok idn where e:
    "snd (snd (snd (files_route verify parse stringify backend f now r (express_request i)))) =
       fileProxy_onProxyRes now req1 (fst (backend req1))"
    "req1 = (express_request i)\<lparr>req_user := Some idn\<rparr>" by blast
  show ?thesis
    using e assms(2,3)
    by (simp add: fileProxy_onProxyRes_def express_request_def)
qed

lemma verify_upload_example:
  "verifyToken example_verify id no_faults cached_store (express_request upload_incoming) =
     (Inr ((express_request upload_incoming)\<lparr>req_user := Some good_identity\<rparr>), cached_store,
      [RedisGet ''token:good'', JwtVerify ''good'', RedisGet ''user:u1''])"
  by (simp add: verifyToken_def token_of_def second_def express_request_def upload_incoming_def
      truthy_def tmpl_def get_def example_verify_def good_identity_def no_faults_def
      cached_store_def empty_redis_def Let_def)

text \<open>
  C9. The event of an upload does not carry the file name. For an authenticated POST to
  a path containing \<open>/upload\<close> whose body is a multipart form with a named file (the only
  kind of upload the file service answers 201), one \<open>FILE_UPLOADED\<close> event is scheduled for
  \<open>file-events\<close> with the verified identity's \<open>userId\<close>, and its \<open>filename\<close> is undefined:
  the gateway mounts no multipart parser, so \<open>req.file\<close> is never set and \<open>req.body\<close> has
  no \<open>filename\<close>. The message published for it is keyed by the \<open>userId\<close> (or \<open>system\<close>).
\<close>

theorem upload_event_has_no_filename:
  assumes "verifyToken verify stringify f r (express_request i) = (Inr req1, r1, cs1)"
    and "in_method i = ''POST''" and "js_includes (in_path i) ''/upload''"
    and "in_payload i = MultipartPayload form (Some name)"
    and "backend req1 = (201, body)"
  shows "snd (snd (snd (files_route verify parse stringify backend f now r (express_request i)))) =
           [(''file-events'',
             \<lparr>ev_type = ''FILE_UPLOADED'',
              ev_attrs = [(''userId'', user_id req1), (''filename'', None)],
              ev_timestamp = now\<rparr>)]
       \<and> run_immediates (\<lambda>_. False) sent
            (snd (snd (snd (files_route verify parse stringify backend f now r
                              (express_request i))))) log =
           log @ [(''file-events'',
                   \<lparr>msg_key = js_or (user_id req1) ''system'',
                    msg_value = \<lparr>ev_type = ''FILE_UPLOADED'',
                                 ev_attrs = [(''userId'', user_id req1), (''filename'', None)],
                                 ev_timestamp = sent\<rparr>\<rparr>)]"
proof -
  have m: "req_method (express_request i :: 'a request) \<noteq> ''GET''"
    using assms(2) by (simp add: express_request_def)
  from files_route_events [OF assms(1) m]
  obtain tok idn where e:
    "snd (snd (snd (files_route verify parse stringify backend f now r (express_request i)))) =
       fileProxy_onProxyRes now req1 (fst (backend req1))"
    "req1 = (express_request i)\<lparr>req_user := Some idn\<rparr>" by blast
  have evs: "snd (snd (snd (files_route verify parse stringify backend f now r (express_request i)))) =
           [(''file-events'',
             \<lparr>ev_type = ''FILE_UPLOADED'',
              ev_attrs = [(''userId'', user_id req1), (''filename'', None)],
              ev_timestamp = now\<rparr>)]"
    using e assms(2-5)
    by (simp add: fileProxy_onProxyRes_def express_request_def body_parsers_def body_prop_def
        js_or_undef_def truthy_def)
  show ?thesis
    by (simp add: evs publishEvent_def ev_userId_def)
qed

theorem upload_event_has_no_filename_witness:
  "in_method upload_incoming = ''POST'' \<and> js_includes (in_path upload_incoming) ''/upload''
   \<and> in_payload upload_incoming = MultipartPayload Map.empty (Some ''notes.txt'')
   \<and> snd (snd (snd (files_route example_verify Some id (\<lambda>_. (201, ''created'')) no_faults ''t0''
                       cached_store (express_request upload_incoming)))) =
       [(''file-events'',
         \<lparr>ev_type = ''FILE_UPLOADED'',
          ev_attrs = [(''userId'', Some ''u1''), (''filename'', None)],
          ev_timestamp = ''t0''\<rparr>)]"
  using upload_event_has_no_filename [OF verify_upload_example,
      where backend = "\<lambda>_. (201, ''created'')" and body = "''created''" and form = Map.empty
        and name = "''notes.txt''" and parse = Some and now = "''t0''" and sent = "''t1''"
        and log = "[]"]
  by (simp add: upload_incoming_def user_id_def good_identity_def)

section \<open>Properties of the health check\<close>

text \<open>The handler by itself answers 200 with status \<open>OK\<close> for every state of the Redis
  client.\<close>

lemma health_handler_ok:
  "fst (health now r) = 200
   \<and> h_status (snd (health now r)) = ''OK''
   \<and> h_redis (snd (health now r)) = (if isOpen r then ''connected'' else ''disconnected'')"
  by (simp add: health_def)








end
